theory Spec2Isabelle
  imports Complex_Main
begin

section \<open>The transfer-matrix driver of wpspecdev (src/wpspecdev/em.py)\<close>

text \<open>
  The class \<open>TmmDriver\<close> is embedded as a record of its attributes and one HOL function per
  method. A method that raises returns \<open>Inl\<close> of the exception; a method that mutates
  \<open>self\<close> returns the updated record, also when it raises afterwards (the assignments made
  before the exception stay on the object).

  Python's floats and numpy's complex128 are read as \<open>real\<close> and \<open>complex\<close>; where the
  sign of a floating-point zero decides a result (\<open>np_sqrt\<close>), the model leaves the result
  open instead of choosing. A Python name
  with a leading underscore is written without it (\<open>_k0_array\<close> is \<open>k0_array\<close>,
  \<open>_compute_tm\<close> is \<open>compute_tm\<close>).
\<close>

subsection \<open>Exceptions\<close>

text \<open>
  The first five are the exceptions that statements of em.py raise. The last two are the
  error names of the specification; no statement of em.py raises them.
\<close>

datatype error =
    AttributeError
  | NameError
  | TypeError
  | IndexError
  | ValueError
  | InvalidPolarizationError
  | SingularTransferMatrixError

subsection \<open>The numpy operations that em.py calls\<close>

text \<open>\<open>np.linspace(start, stop, num)\<close>: \<open>num\<close> evenly spaced samples, both ends included.\<close>

definition np_linspace :: "real \<Rightarrow> real \<Rightarrow> nat \<Rightarrow> real list" where
  "np_linspace start stop num =
     map (\<lambda>i. start + real i * ((stop - start) / real (num - 1))) [0..<num]"

text \<open>\<open>np.tile(a, n)\<close> on a one-dimensional array: \<open>n\<close> copies of \<open>a\<close> in a row.\<close>

definition np_tile :: "'a list \<Rightarrow> nat \<Rightarrow> 'a list" where
  "np_tile xs n = concat (replicate n xs)"

text \<open>
  \<open>np.reshape(a, (r, c))\<close> on a one-dimensional array: \<open>r\<close> rows of \<open>c\<close> consecutive
  entries. numpy raises unless \<open>r * c\<close> is the size of \<open>a\<close>; the one call of em.py reshapes
  30 entries to (10, 3) (lemma \<open>init_tile_size\<close>).
\<close>

definition np_reshape :: "'a list \<Rightarrow> nat \<Rightarrow> nat \<Rightarrow> 'a list list" where
  "np_reshape xs r c = map (\<lambda>k. take c (drop (k * c) xs)) [0..<r]"

text \<open>
  \<open>a[i]\<close> on a one-dimensional array or a list: an index from \<open>-len(a)\<close> to \<open>-1\<close> is
  taken from the end, and an index outside \<open>-len(a) .. len(a) - 1\<close> raises IndexError.
\<close>

definition py_get :: "'a list \<Rightarrow> int \<Rightarrow> error + 'a" where
  "py_get xs i =
     (if 0 \<le> i \<and> i < int (length xs) then Inr (xs ! nat i)
      else if i < 0 \<and> - int (length xs) \<le> i then Inr (xs ! nat (int (length xs) + i))
      else Inl IndexError)"

text \<open>
  Elementwise product of two one-dimensional arrays with numpy's broadcasting: equal
  lengths multiply entry by entry, an array of length one is stretched, any other pair of
  lengths raises ValueError.
\<close>

definition np_multiply :: "complex list \<Rightarrow> complex list \<Rightarrow> error + complex list" where
  "np_multiply xs ys =
     (if length xs = length ys then Inr (map (\<lambda>(x, y). x * y) (zip xs ys))
      else if length xs = 1 then Inr (map (\<lambda>y. hd xs * y) ys)
      else if length ys = 1 then Inr (map (\<lambda>x. x * hd ys) xs)
      else Inl ValueError)"

text \<open>
  \<open>a[:, 0]\<close> on a two-dimensional array, kept as the list of its rows: the first entry of
  every row, IndexError when the rows are empty. (An array without rows is taken to have
  at least one column.)
\<close>

definition np_column0 :: "'a list list \<Rightarrow> error + 'a list" where
  "np_column0 rows =
     (if list_ex (\<lambda>r. r = []) rows then Inl IndexError else Inr (map hd rows))"

text \<open>
  A complex128 value that may be non-finite: numpy's division of a complex scalar by zero
  raises nothing, it warns and returns \<open>inf\<close>/\<open>nan\<close>.
\<close>

datatype cval = Finite complex | NonFinite

definition np_divide :: "complex \<Rightarrow> complex \<Rightarrow> cval" where
  "np_divide a b = (if b = 0 then NonFinite else Finite (a / b))"

text \<open>
  \<open>np.sqrt\<close> on a complex128 value is the principal square root: the real part of the root
  is not negative and the imaginary part has the sign of the argument's imaginary part.
  On the negative real axis the argument's imaginary part is a floating-point zero, and
  the root is \<open>+i sqrt(-x)\<close> for \<open>+0.0\<close> and \<open>-i sqrt(-x)\<close> for \<open>-0.0\<close>. A real number
  carries no sign of zero, so there the model does not choose: \<open>CutRoot m\<close> stands for
  the root \<open>i m\<close> or \<open>-i m\<close>, with \<open>m = sqrt(-x)\<close>.
\<close>

datatype croot = Root complex | CutRoot real

definition np_sqrt :: "complex \<Rightarrow> croot" where
  "np_sqrt z = (if Im z = 0 \<and> Re z < 0 then CutRoot (sqrt (- Re z)) else Root (csqrt z))"

text \<open>A 2x2 complex matrix, as its two rows.\<close>

type_synonym cmat = "(complex \<times> complex) \<times> (complex \<times> complex)"

definition np_zeros22 :: cmat where
  "np_zeros22 = ((0, 0), (0, 0))"

definition np_matmul :: "cmat \<Rightarrow> cmat \<Rightarrow> cmat" where
  "np_matmul A B =
     (case A of ((a, b), (c, d)) \<Rightarrow> case B of ((e, f), (g, h)) \<Rightarrow>
        ((a * e + b * g, a * f + b * h), (c * e + d * g, c * f + d * h)))"

text \<open>
  \<open>np.linalg.eye((2,2),dtype=complex)\<close>: the module \<open>numpy.linalg\<close> has no attribute
  \<open>eye\<close> (the identity constructor is \<open>np.eye\<close>), so evaluating the expression raises
  AttributeError.
\<close>

definition np_linalg_eye :: "error + cmat" where
  "np_linalg_eye = Inl AttributeError"

subsection \<open>The attributes of a TmmDriver\<close>

text \<open>
  The first nine attributes are assigned by \<open>__init__\<close>. The others are optional: \<open>None\<close>
  is an attribute that no assignment has created yet, and reading it raises AttributeError.
  \<open>k0_array\<close>, \<open>kx_array\<close>, \<open>kzl_array\<close> and \<open>tm\<close> are assigned by \<open>compute_spectrum\<close>,
  \<open>kz_array\<close> by \<open>_compute_kz\<close>. No method assigns \<open>kxz_array\<close> (read by \<open>_compute_pm\<close>),
  \<open>refractive_index_array_public\<close> (the attribute \<open>self.refractive_index_array\<close>, without
  underscore, read by the p branch of \<open>_compute_dm\<close>; \<open>refractive_index_array\<close> below is
  \<open>self._refractive_index_array\<close>), or the three spectra that the class docstring lists.
  \<open>_compute_tm\<close> has no return statement, so the value stored in \<open>tm\<close> is Python's \<open>None\<close>,
  here \<open>()\<close>.
\<close>

record TmmDriver =
  thickness :: real
  number_of_wavelengths :: nat
  number_of_layers :: nat
  wavelength_array :: "real list"
  wavenumber_array :: "real list"
  thickness_array :: "real list"
  polarization :: string
  incident_angle :: real
  refractive_index_array :: "complex list list"
  k0_array :: "real list option"
  kx_array :: "complex list option"
  kzl_array :: "croot list list option"
  kz_array :: "croot list list option"
  kxz_array :: "complex list option"
  refractive_index_array_public :: "complex list list option"
  tm :: "unit option"
  reflectivity_array :: "real list option"
  transmissivity_array :: "real list option"
  emissivity_array :: "real list option"

subsection \<open>The constructor (em.py, lines 76 to 100)\<close>

definition TmmDriver_init :: "real \<Rightarrow> TmmDriver" where
  "TmmDriver_init t =
     (let nw = 10; nl = 3;
          wl = np_linspace (400 / 10 ^ 9) (800 / 10 ^ 9) nw
      in \<lparr> thickness = t,
           number_of_wavelengths = nw,
           number_of_layers = nl,
           wavelength_array = wl,
           wavenumber_array = map (\<lambda>l. 1 / l) wl,
           thickness_array = [0, t, 0],
           polarization = ''s'',
           incident_angle = 0,
           refractive_index_array = np_reshape (np_tile [1, 3 / 2, 1] nw) nw nl,
           k0_array = None,
           kx_array = None,
           kzl_array = None,
           kz_array = None,
           kxz_array = None,
           refractive_index_array_public = None,
           tm = None,
           reflectivity_array = None,
           transmissivity_array = None,
           emissivity_array = None \<rparr>)"

subsection \<open>The propagation matrix (\<open>_compute_pm\<close>, em.py, lines 281 to 310)\<close>

text \<open>Lines 299 to 308: the matrix assembled from the two exponents \<open>a\<close> and \<open>b\<close>.\<close>

definition pm_matrix :: "complex \<Rightarrow> real \<Rightarrow> cmat" where
  "pm_matrix k d =
     (let ci = \<i>;
          a = - 1 * ci * k * of_real d;
          b = ci * k * of_real d
      in ((exp a, 0), (0, exp b)))"

text \<open>
  \<open>self.thickness_array[idx]\<close> is an entry of a one-dimensional float array, a numpy
  scalar; subscripting it once more, \<open>[i]\<close>, raises IndexError.
\<close>

definition scalar_subscript :: "real \<Rightarrow> int \<Rightarrow> error + real" where
  "scalar_subscript x i = Inl IndexError"

definition compute_pm :: "TmmDriver \<Rightarrow> int \<Rightarrow> int \<Rightarrow> error + cmat" where
  "compute_pm s idx i =
     (case kxz_array s of None \<Rightarrow> Inl AttributeError
      | Some kxz \<Rightarrow>
     (case py_get kxz idx of Inl e \<Rightarrow> Inl e
      | Inr k \<Rightarrow>
     (case py_get (thickness_array s) idx of Inl e \<Rightarrow> Inl e
      | Inr row \<Rightarrow>
     (case scalar_subscript row i of Inl e \<Rightarrow> Inl e
      | Inr d \<Rightarrow> Inr (pm_matrix k d)))))"

subsection \<open>The interface matrix (\<open>_compute_dm\<close>, em.py, lines 211 to 276)\<close>

text \<open>\<open>a[idx][i]\<close> on a two-dimensional array.\<close>

definition py_get2 :: "'a list list \<Rightarrow> int \<Rightarrow> int \<Rightarrow> error + 'a" where
  "py_get2 a idx i = (case py_get a idx of Inl e \<Rightarrow> Inl e | Inr row \<Rightarrow> py_get row i)"

text \<open>
  Lines 237 to 253, one pass of the loop for layer \<open>i\<close>: the matrix \<open>D\<close> starts as zeros
  and is filled by the branch of the polarization. The s branch reads
  \<open>self._refractive_index_array\<close>, the p branch \<open>self.refractive_index_array\<close>; the last
  branch prints "needs polarization s or p" and leaves \<open>D\<close> as it is.
\<close>

definition dm_branch :: "TmmDriver \<Rightarrow> int \<Rightarrow> int \<Rightarrow> error + cmat" where
  "dm_branch s idx i =
     (if polarization s = ''s'' then
        (case py_get2 (refractive_index_array s) idx i of Inl e \<Rightarrow> Inl e
         | Inr n \<Rightarrow>
             Inr ((1, 1),
                  (of_real (cos (incident_angle s)) * n,
                   - 1 * of_real (cos (incident_angle s)) * n)))
      else if polarization s = ''p'' then
        (case refractive_index_array_public s of None \<Rightarrow> Inl AttributeError
         | Some a \<Rightarrow>
        (case py_get2 a idx i of Inl e \<Rightarrow> Inl e
         | Inr n \<Rightarrow>
             Inr ((cos (of_real (incident_angle s) + 0), cos (of_real (incident_angle s) + 0)),
                  (n, - 1 * n))))
      else Inr np_zeros22)"

text \<open>Line 254: \<open>D_inv = 1/((D[0][0]*D[1][1])-(D[0][1]*D[1][0]))\<close>, a scalar.\<close>

definition dm_determinant :: "cmat \<Rightarrow> complex" where
  "dm_determinant D = (case D of ((a, b), (c, d)) \<Rightarrow> (a * d) - (b * c))"

definition dm_D_inv :: "cmat \<Rightarrow> cval" where
  "dm_D_inv D = np_divide 1 (dm_determinant D)"

definition dm_layer :: "TmmDriver \<Rightarrow> int \<Rightarrow> int \<Rightarrow> error + (cmat \<times> cval)" where
  "dm_layer s idx i =
     (case dm_branch s idx i of Inl e \<Rightarrow> Inl e | Inr D \<Rightarrow> Inr (D, dm_D_inv D))"

text \<open>
  The loop of line 234 over the layers; \<open>D\<close> and \<open>D_inv\<close> of the last pass are what the
  statements after the loop see.
\<close>

fun dm_loop ::
  "TmmDriver \<Rightarrow> int \<Rightarrow> nat list \<Rightarrow> (cmat \<times> cval) option \<Rightarrow> error + (cmat \<times> cval) option"
where
  "dm_loop s idx [] seen = Inr seen"
| "dm_loop s idx (i # rest) seen =
     (case dm_layer s idx (int i) of Inl e \<Rightarrow> Inl e
      | Inr r \<Rightarrow> dm_loop s idx rest (Some r))"

text \<open>
  The argument \<open>num_layers\<close>: \<open>_compute_tm\<close> passes an integer, and the loop header takes
  its \<open>len\<close>, which raises TypeError on an integer. A sequence has a length.
\<close>

datatype pyarg = PyInt int | PySeq nat

definition py_len :: "pyarg \<Rightarrow> error + nat" where
  "py_len v = (case v of PyInt n \<Rightarrow> Inl TypeError | PySeq n \<Rightarrow> Inr n)"

text \<open>
  Line 267 calls the bare name \<open>_compute_pm\<close>, not \<open>self._compute_pm\<close>. The module em.py
  has no global of that name, so the lookup raises NameError before any argument is
  evaluated.
\<close>

definition module_compute_pm :: "error + (int \<Rightarrow> int \<Rightarrow> error + cmat)" where
  "module_compute_pm = Inl NameError"

text \<open>
  What \<open>_compute_dm\<close> returns: the scalar \<open>D_inv\<close>, the matrix \<open>D\<close>, or the product
  \<open>np.dot(D_inv, np.dot(D, P))\<close>, which has no finite entry when \<open>D_inv\<close> is not finite.
\<close>

datatype dm_value = Scalar cval | Matrix cmat | NonFiniteMatrix

definition np_dot_scalar :: "cval \<Rightarrow> cmat \<Rightarrow> dm_value" where
  "np_dot_scalar c A =
     (case c of NonFinite \<Rightarrow> NonFiniteMatrix
      | Finite z \<Rightarrow>
          (case A of ((a, b), (c, d)) \<Rightarrow> Matrix ((z * a, z * b), (z * c, z * d))))"

definition compute_dm :: "TmmDriver \<Rightarrow> int \<Rightarrow> pyarg \<Rightarrow> error + dm_value" where
  "compute_dm s idx num_layers =
     (case np_linalg_eye of Inl e \<Rightarrow> Inl e
      | Inr M \<Rightarrow>
     (case py_len num_layers of Inl e \<Rightarrow> Inl e
      | Inr L \<Rightarrow>
     (case dm_loop s idx [0..<L] None of Inl e \<Rightarrow> Inl e
      | Inr seen \<Rightarrow>
     (case module_compute_pm of Inl e \<Rightarrow> Inl e
      | Inr f \<Rightarrow>
     (case seen of None \<Rightarrow> Inl NameError
      | Some (D, D_inv) \<Rightarrow>
     (case f idx (int (L - 1)) of Inl e \<Rightarrow> Inl e
      | Inr P \<Rightarrow>
          if idx = 0 then Inr (Scalar D_inv)
          else if idx = int (length (wavenumber_array s)) then Inr (Matrix D)
          else Inr (np_dot_scalar D_inv (np_matmul D P))))))))"

subsection \<open>The transfer matrix (\<open>_compute_tm\<close>, em.py, lines 165 to 207)\<close>

text \<open>
  \<open>np.matmul\<close> on what \<open>_compute_dm\<close> returns: numpy refuses a scalar operand with
  ValueError, and a product with a non-finite matrix has no finite entry.
\<close>

definition np_matmul_v :: "dm_value \<Rightarrow> dm_value \<Rightarrow> error + dm_value" where
  "np_matmul_v A B =
     (case A of Scalar a \<Rightarrow> Inl ValueError
      | NonFiniteMatrix \<Rightarrow>
          (case B of Scalar b \<Rightarrow> Inl ValueError | _ \<Rightarrow> Inr NonFiniteMatrix)
      | Matrix a \<Rightarrow>
          (case B of Scalar b \<Rightarrow> Inl ValueError
           | NonFiniteMatrix \<Rightarrow> Inr NonFiniteMatrix
           | Matrix b \<Rightarrow> Inr (Matrix (np_matmul a b))))"

text \<open>The inner loop over \<open>y\<close> (lines 197 to 200) at wavelength index \<open>x\<close>.\<close>

fun tm_inner :: "TmmDriver \<Rightarrow> nat \<Rightarrow> nat list \<Rightarrow> dm_value \<Rightarrow> error + dm_value" where
  "tm_inner s x [] M = Inr M"
| "tm_inner s x (y # ys) M =
     (if x = 0 \<or> x = length (wavenumber_array s) then
        (case compute_dm s (int x) (PyInt (int y)) of Inl e \<Rightarrow> Inl e
         | Inr D \<Rightarrow>
        (case np_matmul_v M D of Inl e \<Rightarrow> Inl e
         | Inr M' \<Rightarrow> tm_inner s x ys M'))
      else tm_inner s x ys M)"

text \<open>
  The outer loop over \<open>x\<close> (line 196). The header of the inner loop takes
  \<open>len(self.number_of_layers)\<close>, the length of an integer.
\<close>

fun tm_loop :: "TmmDriver \<Rightarrow> nat list \<Rightarrow> dm_value \<Rightarrow> error + dm_value" where
  "tm_loop s [] M = Inr M"
| "tm_loop s (x # xs) M =
     (case py_len (PyInt (int (number_of_layers s))) of Inl e \<Rightarrow> Inl e
      | Inr L \<Rightarrow>
     (case tm_inner s x [0..<L] M of Inl e \<Rightarrow> Inl e
      | Inr M' \<Rightarrow> tm_loop s xs M'))"

text \<open>
  After the loops the method prints \<open>self._k0_array\<close> and \<open>self._kz_array\<close> and ends
  without a return statement: it returns \<open>None\<close>.
\<close>

definition compute_tm :: "TmmDriver \<Rightarrow> error + unit" where
  "compute_tm s =
     (case np_linalg_eye of Inl e \<Rightarrow> Inl e
      | Inr M \<Rightarrow>
     (case tm_loop s [0..<length (wavenumber_array s)] (Matrix M) of Inl e \<Rightarrow> Inl e
      | Inr M' \<Rightarrow>
     (case k0_array s of None \<Rightarrow> Inl AttributeError
      | Some k0 \<Rightarrow>
     (case kz_array s of None \<Rightarrow> Inl AttributeError
      | Some kz \<Rightarrow> Inr ()))))"

subsection \<open>The normal wavevector (\<open>_compute_kz\<close>, em.py, lines 161 to 163)\<close>

text \<open>
  The method reads every array from the name \<open>ml\<close>, which is neither a parameter nor a
  global of em.py: the lookup raises NameError. No method calls \<open>_compute_kz\<close>.
\<close>

definition module_ml :: "error + TmmDriver" where
  "module_ml = Inl NameError"

text \<open>One entry of line 163: \<open>np.sqrt((n * k0)**2 - kx**2)\<close>.\<close>

definition kz_entry :: "complex \<Rightarrow> real \<Rightarrow> complex \<Rightarrow> croot" where
  "kz_entry n k0 kx = np_sqrt ((n * of_real k0) ^ 2 - kx ^ 2)"

text \<open>
  \<open>k0[:, np.newaxis]\<close> and \<open>kx[:, np.newaxis]\<close> pair row \<open>x\<close> of the refractive indices
  with \<open>k0[x]\<close> and \<open>kx[x]\<close>. (numpy would stretch a \<open>k0\<close> or \<open>kx\<close> of length one; here
  the lengths must agree.)
\<close>

definition compute_kz :: "TmmDriver \<Rightarrow> (error + unit) \<times> TmmDriver" where
  "compute_kz s =
     (case module_ml of Inl e \<Rightarrow> (Inl e, s)
      | Inr ml \<Rightarrow>
     (case k0_array ml of None \<Rightarrow> (Inl AttributeError, s)
      | Some k0 \<Rightarrow>
     (case kx_array ml of None \<Rightarrow> (Inl AttributeError, s)
      | Some kx \<Rightarrow>
          if length k0 = length (refractive_index_array ml) \<and>
             length kx = length (refractive_index_array ml)
          then (Inr (),
                s\<lparr>kz_array :=
                    Some (map (\<lambda>(row, k, q). map (\<lambda>n. kz_entry n k q) row)
                            (zip (refractive_index_array ml) (zip k0 kx)))\<rparr>)
          else (Inl ValueError, s))))"

subsection \<open>\<open>compute_spectrum\<close> (em.py, lines 105 to 158)\<close>

text \<open>
  Line 143: row \<open>x\<close> of the refractive indices times \<open>wavenumber_array[x]\<close>, for every
  index \<open>x\<close> of \<open>wavenumber_array\<close>; IndexError when the refractive indices have fewer rows.
\<close>

definition ref_times_wn :: "real list \<Rightarrow> complex list list \<Rightarrow> error + complex list list" where
  "ref_times_wn wn rows =
     (if length wn \<le> length rows
      then Inr (map (\<lambda>(w, row). map (\<lambda>n. of_real w * n) row) (zip wn rows))
      else Inl IndexError)"

text \<open>One entry of line 145: \<open>np.sqrt(r**2 - (r * np.sin(theta)**2))\<close>.\<close>

definition kzl_entry :: "real \<Rightarrow> complex \<Rightarrow> croot" where
  "kzl_entry theta r = np_sqrt (r ^ 2 - r * of_real ((sin theta) ^ 2))"

definition compute_spectrum :: "TmmDriver \<Rightarrow> (error + unit) \<times> TmmDriver" where
  "compute_spectrum s =
     (let k0 = map (\<lambda>l. pi * 2 / l) (wavelength_array s);
          s1 = s\<lparr>k0_array := Some k0\<rparr>
      in case np_column0 (refractive_index_array s1) of Inl e \<Rightarrow> (Inl e, s1)
         | Inr n0 \<Rightarrow>
        (case np_multiply (map (\<lambda>n. n * of_real (sin (incident_angle s1))) n0)
                (map of_real k0) of Inl e \<Rightarrow> (Inl e, s1)
         | Inr kx \<Rightarrow>
        (let s2 = s1\<lparr>kx_array := Some kx\<rparr>
         in case ref_times_wn (wavenumber_array s2) (refractive_index_array s2) of
              Inl e \<Rightarrow> (Inl e, s2)
            | Inr r \<Rightarrow>
           (let s3 = s2\<lparr>kzl_array := Some (map (map (kzl_entry (incident_angle s2))) r)\<rparr>
            in case compute_tm s3 of Inl e \<Rightarrow> (Inl e, s3)
               | Inr v \<Rightarrow> (Inr (), s3\<lparr>tm := Some v\<rparr>)))))"

section \<open>Properties\<close>

subsection \<open>What the constructor stores\<close>

lemma init_tile_size: "length (np_tile [1, 3 / 2, 1 :: complex] 10) = 10 * 3"
  by (simp add: np_tile_def numeral_eq_Suc)

lemma init_refractive_index_array:
  "refractive_index_array (TmmDriver_init t) = replicate 10 [1, 3 / 2, 1]"
  by (simp add: TmmDriver_init_def Let_def np_reshape_def np_tile_def numeral_eq_Suc upt_conv_Cons)

lemma init_wavelength_array:
  "wavelength_array (TmmDriver_init t) =
     [1 / 2500000, 1 / 2250000, 11 / 22500000, 1 / 1875000, 13 / 22500000,
      7 / 11250000, 1 / 1500000, 1 / 1406250, 17 / 22500000, 1 / 1250000]"
  by (simp add: TmmDriver_init_def Let_def np_linspace_def numeral_eq_Suc upt_conv_Cons)

lemma init_wavenumber_array:
  "wavenumber_array (TmmDriver_init t) =
     [2500000, 2250000, 22500000 / 11, 1875000, 22500000 / 13,
      11250000 / 7, 1500000, 1406250, 22500000 / 17, 1250000]"
  by (simp add: TmmDriver_init_def Let_def np_linspace_def numeral_eq_Suc upt_conv_Cons)

text \<open>
  C10. After \<open>TmmDriver.__init__(thickness)\<close> the thickness array is
  \<open>[0, thickness, 0]\<close>, the wavelength grid is the fixed grid of ten equally spaced points
  from 400 nm to 800 nm, the polarization is \<open>s\<close>, the incidence is normal, whatever the
  argument is, and none of the reflectivity, transmissivity and emissivity arrays exists:
  construction computes no spectrum.
\<close>

theorem init_fixes_configuration_and_computes_no_spectrum:
  "thickness_array (TmmDriver_init t) = [0, t, 0]
   \<and> wavelength_array (TmmDriver_init t) =
       [400 / 10 ^ 9, 4000 / (9 * 10 ^ 9), 4400 / (9 * 10 ^ 9), 4800 / (9 * 10 ^ 9),
        5200 / (9 * 10 ^ 9), 5600 / (9 * 10 ^ 9), 6000 / (9 * 10 ^ 9), 6400 / (9 * 10 ^ 9),
        6800 / (9 * 10 ^ 9), 800 / 10 ^ 9]
   \<and> number_of_wavelengths (TmmDriver_init t) = 10
   \<and> polarization (TmmDriver_init t) = ''s''
   \<and> incident_angle (TmmDriver_init t) = 0
   \<and> reflectivity_array (TmmDriver_init t) = None
   \<and> transmissivity_array (TmmDriver_init t) = None
   \<and> emissivity_array (TmmDriver_init t) = None"
  by (simp add: init_wavelength_array) (simp add: TmmDriver_init_def Let_def)

subsection \<open>What the methods raise\<close>

lemma compute_tm_raises: "compute_tm s = Inl AttributeError"
  by (simp add: compute_tm_def np_linalg_eye_def)

lemma compute_dm_raises: "compute_dm s idx nl = Inl AttributeError"
  by (simp add: compute_dm_def np_linalg_eye_def)

lemma compute_kz_raises: "compute_kz s = (Inl NameError, s)"
  by (simp add: compute_kz_def module_ml_def)

lemma compute_pm_raises:
  "compute_pm s idx i = Inl AttributeError \<or> compute_pm s idx i = Inl IndexError"
  by (simp add: compute_pm_def scalar_subscript_def py_get_def split: option.splits sum.splits)

lemma py_get_error: "py_get xs i = Inl e \<Longrightarrow> e = IndexError"
  by (simp add: py_get_def split: if_splits)

lemma py_get2_error: "py_get2 a idx i = Inl e \<Longrightarrow> e = IndexError"
  by (auto simp add: py_get2_def split: sum.splits dest: py_get_error)

lemma dm_branch_error: "dm_branch s idx i = Inl e \<Longrightarrow> e = AttributeError \<or> e = IndexError"
  by (auto simp add: dm_branch_def split: if_splits sum.splits option.splits dest: py_get2_error)

lemma dm_layer_error: "dm_layer s idx i = Inl e \<Longrightarrow> e = AttributeError \<or> e = IndexError"
  by (auto simp add: dm_layer_def split: sum.splits dest: dm_branch_error)

lemma dm_loop_error:
  "dm_loop s idx ls seen = Inl e \<Longrightarrow> e = AttributeError \<or> e = IndexError"
proof (induction ls arbitrary: seen)
  case Nil
  then show ?case by simp
next
  case (Cons i rest)
  show ?case
  proof (cases "dm_layer s idx (int i)")
    case (Inl e')
    with Cons.prems have "e = e'" by simp
    with Inl show ?thesis by (auto dest: dm_layer_error)
  next
    case (Inr r)
    with Cons.prems have "dm_loop s idx rest (Some r) = Inl e" by simp
    then show ?thesis by (rule Cons.IH)
  qed
qed

subsection \<open>What \<open>compute_spectrum\<close> stores\<close>

text \<open>
  On arrays of matching shapes \<open>compute_spectrum\<close> stores the three wavevector arrays and
  then fails in \<open>_compute_tm\<close>.
\<close>

lemma compute_spectrum_reaches_tm:
  assumes "length (wavelength_array s) = length (refractive_index_array s)"
      and "length (wavenumber_array s) \<le> length (refractive_index_array s)"
      and "\<not> list_ex (\<lambda>r. r = []) (refractive_index_array s)"
  shows "compute_spectrum s =
     (Inl AttributeError,
      s\<lparr>k0_array := Some (map (\<lambda>l. pi * 2 / l) (wavelength_array s)),
        kx_array :=
          Some (map (\<lambda>(row, l). hd row * of_real (sin (incident_angle s)) * of_real (pi * 2 / l))
                  (zip (refractive_index_array s) (wavelength_array s))),
        kzl_array :=
          Some (map (\<lambda>(w, row). map (\<lambda>n. kzl_entry (incident_angle s) (of_real w * n)) row)
                  (zip (wavenumber_array s) (refractive_index_array s)))\<rparr>)"
  using assms
  apply (simp add: compute_spectrum_def Let_def np_column0_def np_multiply_def ref_times_wn_def
      compute_tm_raises)
  apply (simp add: zip_map1 zip_map2 o_def split_def)
  done

lemma compute_spectrum_error_kind:
  "fst (compute_spectrum s) \<in> {Inl AttributeError, Inl IndexError, Inl ValueError}"
  by (auto simp add: compute_spectrum_def Let_def compute_tm_raises np_column0_def
        np_multiply_def ref_times_wn_def split: sum.splits if_splits)

lemma compute_spectrum_keeps_spectra:
  "reflectivity_array (snd (compute_spectrum s)) = reflectivity_array s
   \<and> transmissivity_array (snd (compute_spectrum s)) = transmissivity_array s
   \<and> emissivity_array (snd (compute_spectrum s)) = emissivity_array s
   \<and> tm (snd (compute_spectrum s)) = tm s"
  by (simp add: compute_spectrum_def Let_def compute_tm_raises split: sum.splits)

lemma compute_spectrum_keeps_kxz:
  "kxz_array (snd (compute_spectrum s)) = kxz_array s
   \<and> thickness_array (snd (compute_spectrum s)) = thickness_array s"
  by (simp add: compute_spectrum_def Let_def compute_tm_raises split: sum.splits)

lemma init_shapes:
  "length (wavelength_array (TmmDriver_init t)) = length (refractive_index_array (TmmDriver_init t))"
  "length (wavenumber_array (TmmDriver_init t)) \<le> length (refractive_index_array (TmmDriver_init t))"
  "\<not> list_ex (\<lambda>r. r = []) (refractive_index_array (TmmDriver_init t))"
  by (simp_all add: init_refractive_index_array init_wavelength_array init_wavenumber_array
        list_ex_iff)

lemma init_wavelengths_nonzero: "0 \<notin> set (wavelength_array (TmmDriver_init t))"
  by (simp add: init_wavelength_array)

lemma init_incident_angle: "incident_angle (TmmDriver_init t) = 0"
  by (simp add: TmmDriver_init_def Let_def)

lemma replaced_index_shapes:
  "length (wavelength_array ((TmmDriver_init t)\<lparr>refractive_index_array := replicate 10 row\<rparr>))
     = length (refractive_index_array
         ((TmmDriver_init t)\<lparr>refractive_index_array := replicate 10 row\<rparr>))"
  "length (wavenumber_array ((TmmDriver_init t)\<lparr>refractive_index_array := replicate 10 row\<rparr>))
     \<le> length (refractive_index_array
         ((TmmDriver_init t)\<lparr>refractive_index_array := replicate 10 row\<rparr>))"
  by (simp_all add: init_wavelength_array init_wavenumber_array)

text \<open>
  C2. The claim: for every configuration and wavelength the computed spectra satisfy
  \<open>R + T + emissivity = 1\<close>, with \<open>R\<close> and \<open>T\<close> between 0 and 1. On the driver that
  \<open>TmmDriver(100e-9)\<close> constructs, \<open>compute_spectrum\<close> ends with AttributeError and the
  reflectivity, transmissivity and emissivity arrays are still undefined afterwards: no
  spectrum is computed.
\<close>

theorem compute_spectrum_leaves_spectra_undefined:
  "fst (compute_spectrum (TmmDriver_init (100 / 10 ^ 9))) = Inl AttributeError
   \<and> reflectivity_array (snd (compute_spectrum (TmmDriver_init (100 / 10 ^ 9)))) = None
   \<and> transmissivity_array (snd (compute_spectrum (TmmDriver_init (100 / 10 ^ 9)))) = None
   \<and> emissivity_array (snd (compute_spectrum (TmmDriver_init (100 / 10 ^ 9)))) = None"
  by (simp add: compute_spectrum_reaches_tm [OF init_shapes]) (simp add: TmmDriver_init_def Let_def)

text \<open>
  C3. The claim: the amplitudes are \<open>r = M[1,0]/M[0,0]\<close> and \<open>t = 1/M[0,0]\<close> of the composed
  matrix, and the spectra follow from them. On the driver that \<open>TmmDriver(100e-9)\<close>
  constructs, \<open>_compute_tm\<close> raises AttributeError after \<open>compute_spectrum\<close> has stored the
  wavevectors, and the attribute \<open>_tm\<close> is never assigned: there is no composed matrix to
  take amplitudes from.
\<close>

theorem compute_tm_composes_no_matrix:
  "compute_tm (snd (compute_spectrum (TmmDriver_init (100 / 10 ^ 9)))) = Inl AttributeError
   \<and> tm (snd (compute_spectrum (TmmDriver_init (100 / 10 ^ 9)))) = None"
  by (simp add: compute_tm_raises compute_spectrum_keeps_spectra)
     (simp add: TmmDriver_init_def Let_def)

subsection \<open>The propagation matrix\<close>

lemma pm_matrix_diagonal:
  "pm_matrix k d = ((exp (- (\<i> * k * of_real d)), 0), (0, exp (\<i> * k * of_real d)))"
  by (simp add: pm_matrix_def Let_def)

text \<open>
  C5. The claim: every finite interior layer gets the propagation matrix
  \<open>diag(exp(-i kz d), exp(+i kz d))\<close>. On the driver that \<open>TmmDriver(100e-9)\<close> constructs,
  after \<open>compute_spectrum\<close>, \<open>_compute_pm(0, 1)\<close> (first wavelength, the interior layer)
  raises AttributeError, because no method assigns \<open>_kxz_array\<close>; with that attribute set
  to ten wavevectors it raises IndexError, because \<open>thickness_array[idx][i]\<close> subscripts a
  number. No propagation matrix is returned.
\<close>

theorem compute_pm_returns_no_matrix:
  "compute_pm (snd (compute_spectrum (TmmDriver_init (100 / 10 ^ 9)))) 0 1 = Inl AttributeError
   \<and> compute_pm ((snd (compute_spectrum (TmmDriver_init (100 / 10 ^ 9))))
         \<lparr>kxz_array := Some (replicate 10 1)\<rparr>) 0 1 = Inl IndexError"
  apply (simp add: compute_pm_def compute_spectrum_keeps_kxz scalar_subscript_def py_get_def)
  apply (simp add: TmmDriver_init_def Let_def)
  done

subsection \<open>The interface matrix\<close>

lemma dm_branch_s:
  "polarization s = ''s'' \<Longrightarrow> py_get2 (refractive_index_array s) idx i = Inr n \<Longrightarrow>
   dm_branch s idx i =
     Inr ((1, 1), (of_real (cos (incident_angle s)) * n, - (of_real (cos (incident_angle s)) * n)))"
  by (simp add: dm_branch_def)

lemma dm_branch_p_unset:
  "polarization s = ''p'' \<Longrightarrow> refractive_index_array_public s = None \<Longrightarrow>
   dm_branch s idx i = Inl AttributeError"
  by (simp add: dm_branch_def)

lemma dm_branch_p_set:
  "polarization s = ''p'' \<Longrightarrow> refractive_index_array_public s = Some a \<Longrightarrow>
   py_get2 a idx i = Inr n \<Longrightarrow>
   dm_branch s idx i =
     Inr ((of_real (cos (incident_angle s)), of_real (cos (incident_angle s))), (n, - n))"
  by (simp add: dm_branch_def cos_of_real)

lemma dm_branch_other:
  "polarization s \<noteq> ''s'' \<Longrightarrow> polarization s \<noteq> ''p'' \<Longrightarrow> dm_branch s idx i = Inr np_zeros22"
  by (simp add: dm_branch_def)

text \<open>
  C6. The claim: the interface matrix has the rows \<open>[1, 1]\<close> and
  \<open>[n cos(theta), -n cos(theta)]\<close> for s polarization and the rows with angle and index
  swapped for p polarization. On the constructed driver with the polarization set to \<open>p\<close>,
  the p branch raises AttributeError at the interior layer: it reads
  \<open>self.refractive_index_array\<close>, an attribute that does not exist. The s branch, which
  reads \<open>self._refractive_index_array\<close>, builds the rows \<open>[1, 1]\<close> and \<open>[1.5, -1.5]\<close> there.
  \<open>_compute_dm\<close> itself raises AttributeError before it builds any matrix.
\<close>

theorem p_branch_reads_missing_attribute:
  "dm_branch ((TmmDriver_init (100 / 10 ^ 9))\<lparr>polarization := ''p''\<rparr>) 0 1 = Inl AttributeError
   \<and> dm_branch (TmmDriver_init (100 / 10 ^ 9)) 0 1 = Inr ((1, 1), (3 / 2, - (3 / 2)))
   \<and> compute_dm (TmmDriver_init (100 / 10 ^ 9)) 0 (PySeq 3) = Inl AttributeError"
  apply (simp add: compute_dm_raises dm_branch_def py_get2_def py_get_def
      init_refractive_index_array)
  apply (simp add: TmmDriver_init_def Let_def)
  done

text \<open>
  C7, as stated, fails: with the polarization \<open>x\<close> on the constructed driver the loop of
  \<open>_compute_dm\<close> over the three layers completes, each pass with the all-zero matrix and a
  non-finite \<open>D_inv\<close>, and \<open>_compute_dm\<close> does not fail with InvalidPolarizationError.
\<close>

theorem unsupported_polarization_counterexample:
  "dm_layer ((TmmDriver_init (100 / 10 ^ 9))\<lparr>polarization := ''x''\<rparr>) 0 1
     = Inr (np_zeros22, NonFinite)
   \<and> dm_loop ((TmmDriver_init (100 / 10 ^ 9))\<lparr>polarization := ''x''\<rparr>) 0 [0, 1, 2] None
       = Inr (Some (np_zeros22, NonFinite))
   \<and> compute_dm ((TmmDriver_init (100 / 10 ^ 9))\<lparr>polarization := ''x''\<rparr>) 0 (PySeq 3)
       \<noteq> Inl InvalidPolarizationError"
  by (simp add: compute_dm_raises dm_layer_def dm_branch_def dm_D_inv_def dm_determinant_def
      np_zeros22_def np_divide_def)

text \<open>
  C7, amended. For a polarization that is neither \<open>s\<close> nor \<open>p\<close>, no InvalidPolarizationError
  is raised: the last branch of \<open>_compute_dm\<close> prints its message and goes on with the
  all-zero matrix \<open>D\<close>, so that \<open>D_inv = 1/0\<close> is not finite; neither the loop over the
  layers, nor \<open>_compute_dm\<close>, nor \<open>compute_spectrum\<close> fails with InvalidPolarizationError.
\<close>

theorem unsupported_polarization_prints_and_continues:
  assumes "polarization s \<noteq> ''s''" and "polarization s \<noteq> ''p''"
  shows "dm_layer s idx i = Inr (np_zeros22, NonFinite)
         \<and> dm_loop s idx ls seen \<noteq> Inl InvalidPolarizationError
         \<and> compute_dm s idx nl \<noteq> Inl InvalidPolarizationError
         \<and> fst (compute_spectrum s) \<noteq> Inl InvalidPolarizationError"
proof -
  have "dm_layer s idx i = Inr (np_zeros22, NonFinite)"
    using assms
    by (simp add: dm_layer_def dm_branch_other dm_D_inv_def dm_determinant_def np_zeros22_def
        np_divide_def)
  moreover have "dm_loop s idx ls seen \<noteq> Inl InvalidPolarizationError"
    using dm_loop_error [of s idx ls seen InvalidPolarizationError] by auto
  moreover have "compute_dm s idx nl \<noteq> Inl InvalidPolarizationError"
    by (simp add: compute_dm_raises)
  moreover have "fst (compute_spectrum s) \<noteq> Inl InvalidPolarizationError"
    using compute_spectrum_error_kind [of s] by auto
  ultimately show ?thesis by simp
qed

theorem unsupported_polarization_prints_and_continues_witness:
  "polarization ((TmmDriver_init (100 / 10 ^ 9))\<lparr>polarization := ''x''\<rparr>) \<noteq> ''s''
   \<and> polarization ((TmmDriver_init (100 / 10 ^ 9))\<lparr>polarization := ''x''\<rparr>) \<noteq> ''p''
   \<and> dm_layer ((TmmDriver_init (100 / 10 ^ 9))\<lparr>polarization := ''x''\<rparr>) 0 2
        = Inr (np_zeros22, NonFinite)
   \<and> dm_loop ((TmmDriver_init (100 / 10 ^ 9))\<lparr>polarization := ''x''\<rparr>) 0 [0, 1, 2] None
        \<noteq> Inl InvalidPolarizationError
   \<and> compute_dm ((TmmDriver_init (100 / 10 ^ 9))\<lparr>polarization := ''x''\<rparr>) 0 (PySeq 3)
        \<noteq> Inl InvalidPolarizationError
   \<and> fst (compute_spectrum ((TmmDriver_init (100 / 10 ^ 9))\<lparr>polarization := ''x''\<rparr>))
        \<noteq> Inl InvalidPolarizationError"
proof -
  have a: "polarization ((TmmDriver_init (100 / 10 ^ 9))\<lparr>polarization := ''x''\<rparr>) \<noteq> ''s''"
    and b: "polarization ((TmmDriver_init (100 / 10 ^ 9))\<lparr>polarization := ''x''\<rparr>) \<noteq> ''p''"
    by simp_all
  show ?thesis
    using a b
      unsupported_polarization_prints_and_continues [OF a b, of 0 2 "[0, 1, 2]" None "PySeq 3"]
    by simp
qed

text \<open>
  The reciprocal of line 254 has no zero check: a matrix \<open>D\<close> with determinant 0 is kept
  together with the non-finite result of the division.
\<close>

lemma dm_layer_zero_determinant:
  "dm_branch s idx i = Inr D \<Longrightarrow> dm_determinant D = 0 \<Longrightarrow> dm_layer s idx i = Inr (D, NonFinite)"
  by (simp add: dm_layer_def dm_D_inv_def np_divide_def)

subsection \<open>The wavevectors\<close>

text \<open>
  On arrays of matching shapes, \<open>compute_spectrum\<close> stores \<open>k0 = 2 pi / lambda\<close> and
  \<open>kx = n_incident sin(theta) k0\<close> for every wavelength of the grid, and \<open>kx\<close> is 0 at
  normal incidence.
\<close>

lemma compute_spectrum_k0_kx:
  assumes "length (wavelength_array s) = length (refractive_index_array s)"
      and "length (wavenumber_array s) \<le> length (refractive_index_array s)"
      and "\<not> list_ex (\<lambda>r. r = []) (refractive_index_array s)"
      and "x < length (wavelength_array s)"
  shows "the (k0_array (snd (compute_spectrum s))) ! x = 2 * pi / wavelength_array s ! x"
    and "the (kx_array (snd (compute_spectrum s))) ! x
           = refractive_index_array s ! x ! 0 * of_real (sin (incident_angle s))
               * of_real (2 * pi / wavelength_array s ! x)"
    and "incident_angle s = 0 \<Longrightarrow> the (kx_array (snd (compute_spectrum s))) ! x = 0"
proof -
  have "refractive_index_array s ! x \<noteq> []"
  proof
    assume "refractive_index_array s ! x = []"
    with assms(1,4) have "[] \<in> set (refractive_index_array s)" by (metis nth_mem)
    with assms(3) show False by (simp add: list_ex_iff)
  qed
  then have hd0: "hd (refractive_index_array s ! x) = refractive_index_array s ! x ! 0"
    by (simp add: hd_conv_nth)
  show "the (k0_array (snd (compute_spectrum s))) ! x = 2 * pi / wavelength_array s ! x"
    using assms(4) by (simp add: compute_spectrum_reaches_tm [OF assms(1-3)] mult.commute)
  show "the (kx_array (snd (compute_spectrum s))) ! x
           = refractive_index_array s ! x ! 0 * of_real (sin (incident_angle s))
               * of_real (2 * pi / wavelength_array s ! x)"
    using assms(1,4) by (simp add: compute_spectrum_reaches_tm [OF assms(1-3)] hd0 mult.commute)
  show "the (kx_array (snd (compute_spectrum s))) ! x = 0" if "incident_angle s = 0"
    using assms(1,4) that by (simp add: compute_spectrum_reaches_tm [OF assms(1-3)])
qed

text \<open>The square roots of lines 145 and 163 at normal incidence, off the branch cut.\<close>

lemma np_sqrt_square_right_half: "0 < Re b \<Longrightarrow> np_sqrt (b\<^sup>2) = Root b"
proof -
  assume b: "0 < Re b"
  then have c: "csqrt (b\<^sup>2) = b" by (simp add: csqrt_square)
  have "\<not> (Im (b\<^sup>2) = 0 \<and> Re (b\<^sup>2) < 0)"
  proof
    assume a: "Im (b\<^sup>2) = 0 \<and> Re (b\<^sup>2) < 0"
    then have "Im b = 0" using b by (simp add: power2_eq_square)
    then have "0 \<le> Re (b\<^sup>2)" by (simp add: power2_eq_square)
    with a show False by simp
  qed
  with c show ?thesis by (simp add: np_sqrt_def)
qed

lemma kzl_entry_normal_incidence: "0 < Re r \<Longrightarrow> kzl_entry 0 r = Root r"
  using np_sqrt_square_right_half [of r] by (simp add: kzl_entry_def)

lemma kz_entry_normal_incidence:
  "0 < Re (n * of_real k0) \<Longrightarrow> kz_entry n k0 0 = Root (n * of_real k0)"
  using np_sqrt_square_right_half [of "n * of_real k0"] by (simp add: kz_entry_def)

text \<open>
  The root is the principal one, whatever the sign of its imaginary part: for the product
  of the wavenumber 2500000 and the index \<open>1.5 - 0.1j\<close> line 145 keeps the product itself,
  with a negative imaginary part; for the index \<open>-1j\<close> the argument of the root is on the
  negative real axis.
\<close>

lemma kzl_entry_gain_layer:
  "kzl_entry 0 (2500000 * Complex (3 / 2) (- (1 / 10))) = Root (Complex 3750000 (- 250000))"
proof -
  have "2500000 * Complex (3 / 2) (- (1 / 10)) = Complex 3750000 (- 250000)"
    by (simp add: complex_eq_iff)
  then show ?thesis
    using kzl_entry_normal_incidence [of "Complex 3750000 (- 250000)"] by simp
qed

lemma kzl_entry_on_cut: "kzl_entry 0 (2500000 * (- \<i>)) = CutRoot 2500000"
proof -
  have "(2500000 * (- \<i>))\<^sup>2 = - ((2500000 :: complex)\<^sup>2)"
    by (simp add: power2_eq_square)
  moreover have "sqrt ((2500000 :: real)\<^sup>2) = 2500000"
    by (rule real_sqrt_unique) simp_all
  ultimately show ?thesis
    by (simp add: kzl_entry_def np_sqrt_def)
qed

text \<open>
  C4. The claim: for every wavelength the resolver produces \<open>k0 = 2 pi / lambda\<close>,
  \<open>kx = n_incident sin(theta) k0\<close> and, for every layer,
  \<open>kz = sqrt((n_layer k0)^2 - kx^2)\<close>. On the driver that \<open>TmmDriver(100e-9)\<close> constructs,
  \<open>compute_spectrum\<close> stores, for the first wavelength (400 nm), \<open>k0 = 2 pi 2500000\<close> and
  \<open>kx = 0\<close>, as claimed, but for the interior layer (index 1.5) it stores the normal
  wavevector 3750000, the index times \<open>1/lambda\<close>, where the claimed formula, which is
  the expression of \<open>_compute_kz\<close>, gives \<open>7500000 pi\<close>. \<open>_compute_kz\<close> itself raises
  NameError.
\<close>

theorem stored_normal_wavevector_misses_formula:
  "the (k0_array (snd (compute_spectrum (TmmDriver_init (100 / 10 ^ 9))))) ! 0 = 2 * pi * 2500000
   \<and> the (kx_array (snd (compute_spectrum (TmmDriver_init (100 / 10 ^ 9))))) ! 0 = 0
   \<and> the (kzl_array (snd (compute_spectrum (TmmDriver_init (100 / 10 ^ 9))))) ! 0 ! 1
       = Root 3750000
   \<and> kz_entry (3 / 2) (2 * pi * 2500000) 0 = Root (of_real (7500000 * pi))
   \<and> the (kzl_array (snd (compute_spectrum (TmmDriver_init (100 / 10 ^ 9))))) ! 0 ! 1
       \<noteq> kz_entry (3 / 2) (2 * pi * 2500000) 0
   \<and> fst (compute_kz (snd (compute_spectrum (TmmDriver_init (100 / 10 ^ 9))))) = Inl NameError"
proof -
  have kzl: "kzl_entry 0 3750000 = Root 3750000"
    using kzl_entry_normal_incidence [of 3750000] by simp
  have kz: "kz_entry (3 / 2) (2 * pi * 2500000) 0 = Root (of_real (7500000 * pi))"
    using kz_entry_normal_incidence [of "3 / 2" "2 * pi * 2500000"] by simp
  have ne: "(3750000 :: complex) \<noteq> 7500000 * complex_of_real pi"
  proof
    assume "(3750000 :: complex) = 7500000 * complex_of_real pi"
    then have "Re (3750000 :: complex) = Re (7500000 * complex_of_real pi)"
      by (rule arg_cong)
    then have "3750000 = 7500000 * pi"
      by simp
    with pi_ge_two show False by simp
  qed
  show ?thesis
    unfolding compute_spectrum_reaches_tm [OF init_shapes] snd_conv compute_kz_raises fst_conv kz
    using ne
    by (simp add: init_wavelength_array init_wavenumber_array init_refractive_index_array
        init_incident_angle kzl)
qed

end
